theory Spec2Isabelle
  imports Complex_Main "HOL-Library.Multiset"
begin

section \<open>RenewDSL: the parsing engine (src/parser)\<close>

text \<open>
  A shallow embedding of \<^verbatim>\<open>src/parser/ast_nodes.py\<close> and \<^verbatim>\<open>src/parser/parser.py\<close>:
  the domain model, the callbacks of \<^verbatim>\<open>RenewDSLTransformer\<close> and the
  \<^verbatim>\<open>IndentPreprocessor\<close>.

  The grammar is interpreted by the Lark library, which is not part of the repository.
  Each transformer callback is modelled as a function of the arguments it reads. Of Lark,
  only the rule by which it leaves tokens out of a rule's children is modelled, for the
  direction rules and the attribute lines; its lexer and parser are not.
\<close>

subsection \<open>Python values\<close>

text \<open>The exceptions the modelled code can raise.\<close>

datatype py_error = IndexError | AttributeError | ValueError | OverflowError

text \<open>
  A Python \<^verbatim>\<open>float\<close>: a finite value (every finite double is a real number; the
  model lets every real stand for one), the two infinities (\<^verbatim>\<open>float\<close> of an overlong
  digit string is \<^verbatim>\<open>inf\<close>) and not-a-number. Negative zero is not told apart from
  zero: Python's \<^verbatim>\<open>==\<close> and truth test do not tell them apart either.
\<close>

datatype pyfloat = Fin real | PosInf | NegInf | NaN

text \<open>Unary minus on floats, exact in IEEE arithmetic.\<close>

fun float_neg :: "pyfloat \<Rightarrow> pyfloat" where
  "float_neg (Fin r) = Fin (- r)"
| "float_neg PosInf = NegInf"
| "float_neg NegInf = PosInf"
| "float_neg NaN = NaN"

text \<open>The truth value of a float: false exactly for zero.\<close>

fun float_truthy :: "pyfloat \<Rightarrow> bool" where
  "float_truthy (Fin r) = (r \<noteq> 0)"
| "float_truthy PosInf = True"
| "float_truthy NegInf = True"
| "float_truthy NaN = True"

text \<open>
  \<^verbatim>\<open>int(x)\<close> of a float: truncation towards zero; \<^verbatim>\<open>OverflowError\<close> on an
  infinity, \<^verbatim>\<open>ValueError\<close> on not-a-number.
\<close>

definition py_trunc :: "real \<Rightarrow> int" where
  "py_trunc r = (if 0 \<le> r then \<lfloor>r\<rfloor> else \<lceil>r\<rceil>)"

fun py_int :: "pyfloat \<Rightarrow> py_error + int" where
  "py_int (Fin r) = Inr (py_trunc r)"
| "py_int PosInf = Inl OverflowError"
| "py_int NegInf = Inl OverflowError"
| "py_int NaN = Inl ValueError"

subsection \<open>The domain model (ast_nodes.py)\<close>

datatype TrackingMode = FIXED | SINGLE_AXIS | DUAL_AXIS

record Coordinate =
  latitude :: pyfloat
  longitude :: pyfloat

record Quantity =
  value' :: pyfloat
  unit :: string

record EquipmentRef =
  name :: string
  count :: "int option"

text \<open>
  The values that travel through the transformer. Python is dynamically typed: the
  attribute dictionaries hold values of different classes, and a field filled from
  \<^verbatim>\<open>attrs.get\<close> holds whatever was stored, or \<^verbatim>\<open>None\<close>. \<open>PTree d cs\<close> is a Lark
  \<^verbatim>\<open>Tree\<close> with \<^verbatim>\<open>.data = d\<close> and \<^verbatim>\<open>.children = cs\<close>, the only value here that has
  a \<^verbatim>\<open>.data\<close> attribute.
\<close>

datatype pyval =
    PNone
  | PStr string
  | PFloat pyfloat
  | PList "pyval list"
  | PTree string "pyval list"
  | PCoordinate Coordinate
  | PQuantity Quantity
  | PEquipmentRef EquipmentRef
  | PTrackingMode TrackingMode
  | PWeatherSource pyval "pyval list"
  | PObjective string string

subsection \<open>Transformer callbacks on literals\<close>

text \<open>
  \<^verbatim>\<open>coordinate(self, lat, ns, lon, ew)\<close>: \<open>lat\<close> and \<open>lon\<close> are results of the
  \<^verbatim>\<open>NUMBER\<close> callback (floats); \<open>ns\<close> and \<open>ew\<close> are compared with the strings
  \<^verbatim>\<open>"N"\<close> and \<^verbatim>\<open>"E"\<close>. Every value other than \<^verbatim>\<open>"N"\<close> (other than \<^verbatim>\<open>"E"\<close>)
  takes the negating branch.
\<close>

definition coordinate :: "pyfloat \<Rightarrow> pyval \<Rightarrow> pyfloat \<Rightarrow> pyval \<Rightarrow> Coordinate" where
  "coordinate lat ns lon ew =
     (let lat_val = (if ns = PStr ''N'' then lat else float_neg lat);
          lon_val = (if ew = PStr ''E'' then lon else float_neg lon)
      in \<lparr>latitude = lat_val, longitude = lon_val\<rparr>)"

subsection \<open>Dictionaries\<close>

text \<open>
  \<^verbatim>\<open>dict(items)\<close> on a list of (name, value) tuples inserts the pairs from left to
  right, a later pair replacing the value of an equal key. A dictionary is compared by
  its contents, so it is modelled as a map. \<^verbatim>\<open>d.get(k)\<close> is \<^verbatim>\<open>None\<close> for a missing
  key, \<^verbatim>\<open>d.get(k, default)\<close> is the default.
\<close>

definition dict :: "(string \<times> pyval) list \<Rightarrow> (string \<rightharpoonup> pyval)" where
  "dict items = foldl (\<lambda>d (k, v). d(k \<mapsto> v)) Map.empty items"

definition dict_get :: "(string \<rightharpoonup> pyval) \<Rightarrow> string \<Rightarrow> pyval" where
  "dict_get d k = (case d k of None \<Rightarrow> PNone | Some v \<Rightarrow> v)"

definition dict_get_default :: "(string \<rightharpoonup> pyval) \<Rightarrow> string \<Rightarrow> pyval \<Rightarrow> pyval" where
  "dict_get_default d k dflt = (case d k of None \<Rightarrow> dflt | Some v \<Rightarrow> v)"

subsection \<open>The section records (ast_nodes.py)\<close>

text \<open>
  The fields the transformer fills from \<^verbatim>\<open>attrs.get\<close> hold any value; the dataclass
  annotations are not enforced. \<^verbatim>\<open>Optimization.constraints\<close> is
  \<^verbatim>\<open>Optional[List[Constraint]]\<close>: \<open>None\<close> is Python's \<^verbatim>\<open>None\<close> and \<open>Some cs\<close> the
  list \<open>cs\<close>. In the \<open>Model\<close>, \<open>None\<close> is a section that was not set.
\<close>

record Site =
  name :: pyval
  location :: pyval
  area :: pyval
  terrain :: pyval
  irradiance :: pyval
  elevation :: pyval

record Equipment =
  type :: pyval
  name :: pyval
  from_catalog :: bool
  specs :: "string \<rightharpoonup> pyval"

record Layout =
  name :: pyval
  panels :: pyval
  inverters :: pyval
  turbines :: pyval
  orientation :: pyval
  tilt :: pyval
  row_spacing :: pyval
  tracking :: pyval
  count :: pyval

record Simulation =
  weather :: pyval
  duration :: pyval
  timestep :: pyval
  outputs :: pyval

record Constraint =
  variable :: string
  operator :: string
  value' :: pyval

record Optimization =
  objective :: pyval
  variables :: pyval
  constraints :: "Constraint list option"
  algorithm :: pyval

record Model =
  site :: "Site option"
  equipment :: "Equipment list"
  layouts :: "Layout list"
  simulation :: "Simulation option"
  optimization :: "Optimization option"

text \<open>
  The constructors with their \<^verbatim>\<open>__post_init__\<close>: \<^verbatim>\<open>Simulation\<close> replaces a
  \<^verbatim>\<open>None\<close> \<open>outputs\<close> by the two default names, \<^verbatim>\<open>Optimization\<close> replaces a
  \<^verbatim>\<open>None\<close> \<open>variables\<close> and a \<^verbatim>\<open>None\<close> \<open>constraints\<close> by the empty list, and
  \<^verbatim>\<open>Model()\<close> starts with no section and two empty lists.
\<close>

definition Simulation_new :: "pyval \<Rightarrow> pyval \<Rightarrow> pyval \<Rightarrow> pyval \<Rightarrow> Simulation" where
  "Simulation_new w d t outs =
     \<lparr>weather = w, duration = d, timestep = t,
      outputs = (if outs = PNone then PList [PStr ''generation'', PStr ''capacity_factor'']
                 else outs)\<rparr>"

definition Optimization_new ::
  "pyval \<Rightarrow> pyval \<Rightarrow> Constraint list option \<Rightarrow> pyval \<Rightarrow> Optimization" where
  "Optimization_new obj vars cons alg =
     \<lparr>objective = obj,
      variables = (if vars = PNone then PList [] else vars),
      constraints = (case cons of None \<Rightarrow> Some [] | Some cs \<Rightarrow> Some cs),
      algorithm = alg\<rparr>"

definition Model_new :: Model where
  "Model_new = \<lparr>site = None, equipment = [], layouts = [], simulation = None,
                optimization = None\<rparr>"

subsection \<open>Transformer callbacks on attributes and sections\<close>

text \<open>
  \<^verbatim>\<open>site_attr\<close>, \<^verbatim>\<open>layout_attr\<close>, \<^verbatim>\<open>simulate_attr\<close> and \<^verbatim>\<open>optimize_attr\<close> have
  the same body: \<^verbatim>\<open>(items[0].data, items[1])\<close>. \<^verbatim>\<open>items[0]\<close> of an empty list
  raises \<^verbatim>\<open>IndexError\<close>, \<^verbatim>\<open>.data\<close> of a value that is not a tree raises
  \<^verbatim>\<open>AttributeError\<close>, \<^verbatim>\<open>items[1]\<close> of a one-element list raises \<^verbatim>\<open>IndexError\<close>.
\<close>

fun attr_pair :: "pyval list \<Rightarrow> py_error + (string \<times> pyval)" where
  "attr_pair [] = Inl IndexError"
| "attr_pair (PTree d cs # []) = Inl IndexError"
| "attr_pair (PTree d cs # v # rest) = Inr (d, v)"
| "attr_pair (x # rest) = Inl AttributeError"

definition site_attr :: "pyval list \<Rightarrow> py_error + (string \<times> pyval)" where
  "site_attr items = attr_pair items"

definition layout_attr :: "pyval list \<Rightarrow> py_error + (string \<times> pyval)" where
  "layout_attr items = attr_pair items"

definition simulate_attr :: "pyval list \<Rightarrow> py_error + (string \<times> pyval)" where
  "simulate_attr items = attr_pair items"

definition optimize_attr :: "pyval list \<Rightarrow> py_error + (string \<times> pyval)" where
  "optimize_attr items = attr_pair items"

text \<open>
  \<^verbatim>\<open>equipment_spec\<close>: \<^verbatim>\<open>items[0]\<close> is the result of the \<^verbatim>\<open>NAME\<close> callback, a
  string, and \<^verbatim>\<open>items[1]\<close> the value. \<^verbatim>\<open>spec_block\<close> is \<^verbatim>\<open>dict(items)\<close> on the
  tuples of its spec lines.
\<close>

definition equipment_spec :: "string \<Rightarrow> pyval \<Rightarrow> string \<times> pyval" where
  "equipment_spec spec_name v = (spec_name, v)"

definition spec_block :: "(string \<times> pyval) list \<Rightarrow> (string \<rightharpoonup> pyval)" where
  "spec_block items = dict items"

text \<open>
  \<^verbatim>\<open>equipment_ref(self, name, count=None)\<close>:
  \<^verbatim>\<open>EquipmentRef(name, int(count) if count else None)\<close>. \<open>count\<close> is absent or the
  float of the \<^verbatim>\<open>NUMBER\<close> callback.
\<close>

definition equipment_ref :: "string \<Rightarrow> pyfloat option \<Rightarrow> py_error + EquipmentRef" where
  "equipment_ref n cnt =
     (case cnt of
        None \<Rightarrow> Inr \<lparr>EquipmentRef.name = n, count = None\<rparr>
      | Some c \<Rightarrow>
          if float_truthy c
          then (case py_int c of
                  Inl e \<Rightarrow> Inl e
                | Inr k \<Rightarrow> Inr \<lparr>EquipmentRef.name = n, count = Some k\<rparr>)
          else Inr \<lparr>EquipmentRef.name = n, count = None\<rparr>)"

text \<open>
  The section callbacks. Each takes the transformer's \<^verbatim>\<open>self.model\<close> and returns the
  record it built with the updated model. In \<^verbatim>\<open>site_def\<close> and \<^verbatim>\<open>layout_def\<close>,
  \<^verbatim>\<open>items[0]\<close> is the name and \<^verbatim>\<open>items[1:]\<close> the tuples of the attribute lines; in
  \<^verbatim>\<open>simulate_def\<close> and \<^verbatim>\<open>optimize_def\<close>, \<^verbatim>\<open>items\<close> are the tuples. In
  \<^verbatim>\<open>equipment_item\<close>, \<^verbatim>\<open>items[2]\<close> is the dictionary of the spec block when the
  item has one (\<^verbatim>\<open>len(items) > 2\<close>).
\<close>

definition site_def :: "pyval \<Rightarrow> (string \<times> pyval) list \<Rightarrow> Model \<Rightarrow> Site \<times> Model" where
  "site_def nm items m =
     (let attrs = dict items;
          s = \<lparr>Site.name = nm,
               location = dict_get attrs ''location'',
               area = dict_get attrs ''area'',
               terrain = dict_get attrs ''terrain'',
               irradiance = dict_get attrs ''irradiance'',
               elevation = dict_get attrs ''elevation''\<rparr>
      in (s, m\<lparr>site := Some s\<rparr>))"

definition equipment_item ::
  "pyval \<Rightarrow> pyval \<Rightarrow> (string \<rightharpoonup> pyval) option \<Rightarrow> Model \<Rightarrow> Equipment \<times> Model" where
  "equipment_item eq_type nm sp m =
     (let e = \<lparr>type = eq_type, Equipment.name = nm, from_catalog = False,
               specs = (case sp of None \<Rightarrow> Map.empty | Some d \<Rightarrow> d)\<rparr>
      in (e, m\<lparr>equipment := equipment m @ [e]\<rparr>))"

definition layout_def :: "pyval \<Rightarrow> (string \<times> pyval) list \<Rightarrow> Model \<Rightarrow> Layout \<times> Model" where
  "layout_def nm items m =
     (let attrs = dict items;
          l = \<lparr>Layout.name = nm,
               panels = dict_get attrs ''panels'',
               inverters = dict_get attrs ''inverters'',
               turbines = PNone,
               orientation = dict_get attrs ''orientation'',
               tilt = dict_get attrs ''tilt'',
               row_spacing = dict_get attrs ''row_spacing'',
               tracking = dict_get attrs ''tracking'',
               count = PNone\<rparr>
      in (l, m\<lparr>layouts := layouts m @ [l]\<rparr>))"

definition simulate_def :: "(string \<times> pyval) list \<Rightarrow> Model \<Rightarrow> Simulation \<times> Model" where
  "simulate_def items m =
     (let attrs = dict items;
          sim = Simulation_new (dict_get attrs ''weather'') (dict_get attrs ''duration'')
                  (dict_get attrs ''timestep'') (dict_get attrs ''outputs'')
      in (sim, m\<lparr>simulation := Some sim\<rparr>))"

definition optimize_def :: "(string \<times> pyval) list \<Rightarrow> Model \<Rightarrow> Optimization \<times> Model" where
  "optimize_def items m =
     (let attrs = dict items;
          opt = Optimization_new (dict_get attrs ''objective'') (dict_get attrs ''variables'')
                  None (dict_get_default attrs ''algorithm'' (PStr ''gradient''))
      in (opt, m\<lparr>optimization := Some opt\<rparr>))"

text \<open>
  The transformer as a state machine. \<^verbatim>\<open>self.model\<close> starts as \<^verbatim>\<open>Model()\<close> and only
  these five callbacks write to it; \<^verbatim>\<open>start\<close> returns it. A run of the transformer
  over a tree is, for the model, a sequence of such calls.
\<close>

datatype section_call =
    SiteDef pyval "(string \<times> pyval) list"
  | EquipmentItem pyval pyval "(string \<times> pyval) list option"
  | LayoutDef pyval "(string \<times> pyval) list"
  | SimulateDef "(string \<times> pyval) list"
  | OptimizeDef "(string \<times> pyval) list"

fun call :: "section_call \<Rightarrow> Model \<Rightarrow> Model" where
  "call (SiteDef nm items) m = snd (site_def nm items m)"
| "call (EquipmentItem eq_type nm sp) m = snd (equipment_item eq_type nm (map_option spec_block sp) m)"
| "call (LayoutDef nm items) m = snd (layout_def nm items m)"
| "call (SimulateDef items) m = snd (simulate_def items m)"
| "call (OptimizeDef items) m = snd (optimize_def items m)"

definition run_calls :: "section_call list \<Rightarrow> Model" where
  "run_calls cs = foldl (\<lambda>m c. call c m) Model_new cs"

subsection \<open>The children Lark leaves to a callback\<close>

text \<open>
  \<^verbatim>\<open>parse\<close> builds the parser with Lark's default options. The tree it builds then
  leaves out of a rule's children every token matched by a string literal written in the
  rule (\<^verbatim>\<open>"N"\<close>, \<^verbatim>\<open>"panels"\<close>, \<^verbatim>\<open>":"\<close>, \<^verbatim>\<open>"*"\<close>) and every token of a terminal whose
  name starts with an underscore (\<^verbatim>\<open>_NL\<close>, \<^verbatim>\<open>_INDENT\<close>, \<^verbatim>\<open>_DEDENT\<close>); a rule for which
  the transformer has no callback stays a \<^verbatim>\<open>Tree\<close> named after the rule.

  \<^verbatim>\<open>direction_ns: "N" | "S"\<close> and \<^verbatim>\<open>direction_ew: "E" | "W"\<close> have no callback and consist
  of one string literal: whichever letter was read, the value handed on is the tree of
  the rule with no children.
\<close>

definition direction_ns :: "string \<Rightarrow> pyval" where
  "direction_ns letter = PTree ''direction_ns'' []"

definition direction_ew :: "string \<Rightarrow> pyval" where
  "direction_ew letter = PTree ''direction_ew'' []"

text \<open>
  An attribute line of a \<^verbatim>\<open>site\<close>, \<^verbatim>\<open>layout\<close>, \<^verbatim>\<open>simulate\<close> or \<^verbatim>\<open>optimize\<close> block is
  a keyword literal, the literal \<^verbatim>\<open>":"\<close>, a value and \<^verbatim>\<open>_NL\<close>: the one child left to the
  attribute callback is the result of the value's callback.
\<close>

definition attr_children :: "pyval \<Rightarrow> pyval list" where
  "attr_children v = [v]"

subsection \<open>Strings\<close>

text \<open>
  A Python \<^verbatim>\<open>str\<close> is modelled as a \<open>string\<close> whose characters are the code points
  below 256; every character of the DSL (the degree sign and the superscript two
  included) is one of them. \<open>isspace\<close> lists the characters below 256 that
  \<^verbatim>\<open>str.strip\<close> and \<^verbatim>\<open>str.lstrip\<close> remove: tab, line feed, vertical tab, form
  feed, carriage return, the four separators 28 to 31, the space, next line (133) and
  the no-break space (160).
\<close>

definition newline :: char where
  "newline = CHR 0x0A"

definition isspace :: "char \<Rightarrow> bool" where
  "isspace c \<longleftrightarrow> (of_char c :: nat) \<in> {9, 10, 11, 12, 13, 28, 29, 30, 31, 32, 133, 160}"

definition lstrip :: "string \<Rightarrow> string" where
  "lstrip s = dropWhile isspace s"

definition strip :: "string \<Rightarrow> string" where
  "strip s = rev (dropWhile isspace (rev (dropWhile isspace s)))"

text \<open>\<^verbatim>\<open>text.split(sep)\<close> for a separator of one character.\<close>

fun split_str :: "char \<Rightarrow> string \<Rightarrow> string list" where
  "split_str sep [] = [] # []"
| "split_str sep (c # cs) =
     (if c = sep then [] # split_str sep cs
      else (case split_str sep cs of [] \<Rightarrow> [c # []] | w # ws \<Rightarrow> (c # w) # ws))"

text \<open>\<^verbatim>\<open>sep.join(xs)\<close>.\<close>

fun join_str :: "string \<Rightarrow> string list \<Rightarrow> string" where
  "join_str sep [] = []"
| "join_str sep [x] = x"
| "join_str sep (x # y # ys) = x @ sep @ join_str sep (y # ys)"

text \<open>\<^verbatim>\<open>s.replace(old, new, 1)\<close>: the leftmost occurrence of \<open>old\<close> is replaced.\<close>

fun replace_first :: "string \<Rightarrow> string \<Rightarrow> string \<Rightarrow> string" where
  "replace_first old new [] = (if old = [] then new else [])"
| "replace_first old new (c # cs) =
     (if take (length old) (c # cs) = old then new @ drop (length old) (c # cs)
      else c # replace_first old new cs)"

text \<open>\<^verbatim>\<open>s * n\<close>.\<close>

definition str_times :: "string \<Rightarrow> nat \<Rightarrow> string" where
  "str_times s n = concat (replicate n s)"

subsection \<open>The indentation preprocessor (parser.py, IndentPreprocessor)\<close>

text \<open>
  The object's three fields. The indentation stack is a Python list: its top is the
  last element (\<^verbatim>\<open>indent_stack[-1]\<close>), \<^verbatim>\<open>append\<close> adds at the end and \<^verbatim>\<open>pop\<close>
  removes the last element. The field \<^verbatim>\<open>output\<close> is written \<open>output'\<close>.
\<close>

record IndentPreprocessor =
  lines :: "string list"
  output' :: "string list"
  indent_stack :: "nat list"

definition IndentPreprocessor_init :: "string \<Rightarrow> IndentPreprocessor" where
  "IndentPreprocessor_init text =
     \<lparr>lines = split_str newline text, output' = [], indent_stack = [0]\<rparr>"

text \<open>
  The inner loop of the dedent branch:
  \<^verbatim>\<open>while self.indent_stack and indent < self.indent_stack[-1]\<close>.
\<close>

function dedent_while :: "nat \<Rightarrow> IndentPreprocessor \<Rightarrow> IndentPreprocessor" where
  "dedent_while indent s =
     (if indent_stack s \<noteq> [] \<and> indent < last (indent_stack s)
      then dedent_while indent
             (s\<lparr>indent_stack := butlast (indent_stack s), output' := output' s @ [''<DEDENT>'']\<rparr>)
      else s)"
  by pat_completeness auto
termination
  by (relation "measure (\<lambda>(indent, s). length (indent_stack s))") auto

declare dedent_while.simps [simp del]

text \<open>The closing loop: \<^verbatim>\<open>while len(self.indent_stack) > 1\<close>.\<close>

function close_while :: "IndentPreprocessor \<Rightarrow> IndentPreprocessor" where
  "close_while s =
     (if length (indent_stack s) > 1
      then close_while
             (s\<lparr>indent_stack := butlast (indent_stack s), output' := output' s @ [''<DEDENT>'']\<rparr>)
      else s)"
  by pat_completeness auto
termination
  by (relation "measure (\<lambda>s. length (indent_stack s))") auto

declare close_while.simps [simp del]

text \<open>
  The body of the \<^verbatim>\<open>for line in self.lines\<close> loop. \<^verbatim>\<open>self.indent_stack[-1]\<close> on
  an empty list raises \<^verbatim>\<open>IndexError\<close>.
\<close>

definition process_line :: "string \<Rightarrow> IndentPreprocessor \<Rightarrow> py_error + IndentPreprocessor" where
  "process_line line s =
     (if strip line = [] then Inr (s\<lparr>output' := output' s @ ['''']\<rparr>)
      else
        let indent = length line - length (lstrip line) in
        if indent_stack s = [] then Inl IndexError
        else if indent > last (indent_stack s) then
          (let s1 = s\<lparr>indent_stack := indent_stack s @ [indent]\<rparr>
           in Inr (s1\<lparr>output' := output' s1 @
                 [replace_first (str_times '' '' indent)
                    (str_times ''<INDENT>'' (length (indent_stack s1) - 1)) line]\<rparr>))
        else if indent < last (indent_stack s) then
          (let s1 = dedent_while indent s
           in Inr (s1\<lparr>output' := output' s1 @ [line]\<rparr>))
        else Inr (s\<lparr>output' := output' s @ [line]\<rparr>))"

fun process_lines :: "string list \<Rightarrow> IndentPreprocessor \<Rightarrow> py_error + IndentPreprocessor" where
  "process_lines [] s = Inr s"
| "process_lines (line # rest) s =
     (case process_line line s of Inl e \<Rightarrow> Inl e | Inr s1 \<Rightarrow> process_lines rest s1)"

text \<open>
  \<^verbatim>\<open>process\<close>: the loop over the lines, the closing loop, and the joined output.
\<close>

definition process :: "IndentPreprocessor \<Rightarrow> py_error + string" where
  "process s =
     (case process_lines (lines s) s of
        Inl e \<Rightarrow> Inl e
      | Inr s1 \<Rightarrow> Inr (join_str [newline] (output' (close_while s1))))"

text \<open>
  The stack of a preprocessor built by \<^verbatim>\<open>__init__\<close> keeps its base: it is never empty
  and its first element is 0.
\<close>

definition stack_ok :: "IndentPreprocessor \<Rightarrow> bool" where
  "stack_ok s \<longleftrightarrow> indent_stack s \<noteq> [] \<and> hd (indent_stack s) = 0"

subsection \<open>The entry point (parser.py, parse)\<close>

text \<open>
  \<^verbatim>\<open>parse\<close> runs the preprocessor, hands the text to Lark's parser and the tree to the
  transformer; it catches no exception. Lark's parser for the grammar and its traversal
  of the tree with the transformer are parameters: \<open>lark_parse\<close> returns a tree or the
  error it raises, \<open>transform\<close> returns the model or the error a callback raises.
\<close>

definition parse ::
  "(string \<Rightarrow> py_error + 'tree) \<Rightarrow> ('tree \<Rightarrow> py_error + Model) \<Rightarrow> string \<Rightarrow> py_error + Model" where
  "parse lark_parse transform dsl_text =
     (case process (IndentPreprocessor_init dsl_text) of
        Inl e \<Rightarrow> Inl e
      | Inr processed_text \<Rightarrow>
          (case lark_parse processed_text of
             Inl e \<Rightarrow> Inl e
           | Inr tree \<Rightarrow> transform tree))"

section \<open>Properties\<close>

subsection \<open>Dictionary construction\<close>

text \<open>
  \<^verbatim>\<open>dict(items)\<close> is the map of the reversed list of pairs: the rightmost pair of a key
  decides its value.
\<close>

lemma foldl_dict_upd:
  "foldl (\<lambda>d (k, v). d(k \<mapsto> v)) m items = m ++ map_of (rev items)"
proof (induction items arbitrary: m)
  case Nil
  show ?case by simp
next
  case (Cons p items)
  obtain k v where p: "p = (k, v)" by (cases p)
  have "foldl (\<lambda>d (k, v). d(k \<mapsto> v)) m (p # items)
          = foldl (\<lambda>d (k, v). d(k \<mapsto> v)) (m(k \<mapsto> v)) items"
    by (simp add: p del: fun_upd_apply)
  also have "\<dots> = m(k \<mapsto> v) ++ map_of (rev items)"
    by (rule Cons.IH)
  also have "\<dots> = m ++ map_of (rev (p # items))"
    by (simp add: p map_add_assoc [symmetric] del: fun_upd_apply)
  finally show ?case .
qed

lemma dict_map_of: "dict items = map_of (rev items)"
  by (simp add: dict_def foldl_dict_upd)

lemma dict_last_wins:
  assumes "k \<notin> fst ` set ys"
  shows "dict (xs @ (k, v) # ys) k = Some v"
proof -
  have "map_of (rev ys) k = None"
    using assms by (simp add: map_of_eq_None_iff)
  then show ?thesis
    by (simp add: dict_map_of map_add_def)
qed

lemma dict_perm:
  assumes "mset items' = mset items" and "distinct (map fst items)"
  shows "dict items' = dict items"
proof -
  have "mset (map fst items') = mset (map fst items)"
    using assms(1) by (metis mset_map)
  then have d: "distinct (map fst items')"
    using assms(2) by (metis mset_eq_imp_distinct_iff)
  have s: "set items' = set items"
    using assms(1) by (metis mset_eq_setD)
  have "map_of (rev items') = map_of (rev items)"
    using d assms(2) s by (subst map_of_inject_set) (simp_all add: rev_map [symmetric])
  then show ?thesis by (simp add: dict_map_of)
qed


subsection \<open>The model under a run of the transformer\<close>

text \<open>
  Each call writes one field of the model: \<^verbatim>\<open>simulate_def\<close> the simulation,
  \<^verbatim>\<open>optimize_def\<close> the optimization, and no other call touches these two.
\<close>

lemma run_calls_snoc: "run_calls (cs @ [c]) = call c (run_calls cs)"
  by (simp add: run_calls_def)


lemma call_optimization:
  "optimization (call c m) = (case c of OptimizeDef items \<Rightarrow> Some (fst (optimize_def items m)) | _ \<Rightarrow> optimization m)"
  by (cases c) (simp_all add: site_def_def equipment_item_def layout_def_def simulate_def_def optimize_def_def Let_def)



lemma optimize_def_constraints: "constraints (fst (optimize_def items m)) = Some []"
  by (simp add: optimize_def_def Optimization_new_def Let_def)

lemma run_calls_constraints:
  "optimization (run_calls cs) = Some opt \<Longrightarrow> constraints opt = Some []"
proof (induction cs arbitrary: opt rule: rev_induct)
  case Nil
  then show ?case by (simp add: run_calls_def Model_new_def)
next
  case (snoc c cs)
  then show ?case
    by (cases c) (auto simp: run_calls_snoc call_optimization optimize_def_constraints simp del: call.simps)
qed

lemma run_calls_has_optimization:
  "OptimizeDef items \<in> set cs \<Longrightarrow> optimization (run_calls cs) \<noteq> None"
proof (induction cs rule: rev_induct)
  case Nil
  then show ?case by simp
next
  case (snoc c cs)
  then show ?case
    by (cases c) (auto simp: run_calls_snoc call_optimization simp del: call.simps)
qed

subsection \<open>What the callbacks require of their arguments\<close>

text \<open>
  The coordinate callback keeps a magnitude only when the hemisphere argument is the
  string \<^verbatim>\<open>"N"\<close> (\<^verbatim>\<open>"E"\<close>) itself: any other value, a parse subtree for instance,
  takes the negating branch. The attribute callbacks read \<^verbatim>\<open>.data\<close> of their first
  item: they return a tuple when it is a tree followed by a value, and raise
  \<^verbatim>\<open>AttributeError\<close> when it is any other value.
\<close>

lemma coordinate_other_argument:
  assumes "ns \<noteq> PStr ''N''" and "ew \<noteq> PStr ''E''"
  shows "coordinate lat ns lon ew = \<lparr>latitude = float_neg lat, longitude = float_neg lon\<rparr>"
  using assms by (simp add: coordinate_def)

lemma site_attr_tree: "site_attr (PTree d cs # v # rest) = Inr (d, v)"
  by (simp add: site_attr_def)

lemma site_attr_not_tree:
  assumes "\<And>d cs. x \<noteq> PTree d cs"
  shows "site_attr (x # rest) = Inl AttributeError"
  using assms by (cases x) (auto simp: site_attr_def)

subsection \<open>Coordinates\<close>

text \<open>
  On the hemisphere letters themselves the coordinate callback would follow the sign
  rule: \<^verbatim>\<open>N\<close> and \<^verbatim>\<open>E\<close> keep the magnitude, \<^verbatim>\<open>S\<close> and \<^verbatim>\<open>W\<close> negate it.
\<close>

lemma coordinate_on_letters:
  "latitude (coordinate lat (PStr ''N'') lon ew) = lat
   \<and> latitude (coordinate lat (PStr ''S'') lon ew) = float_neg lat
   \<and> longitude (coordinate lat ns lon (PStr ''E'')) = lon
   \<and> longitude (coordinate lat ns lon (PStr ''W'')) = float_neg lon"
  by (simp add: coordinate_def)

text \<open>
  C1. The callback is not handed the letters. For the coordinate \<^verbatim>\<open>10 N, 20 E\<close> of
  Scenario A it receives the trees of the two direction rules, compares each with a
  string, and negates both magnitudes: the coordinate stored is (-10, -20), not
  (10, 20); the same happens for every magnitude and every pair of letters. The
  attribute callback of the \<^verbatim>\<open>location\<close> line then reads \<^verbatim>\<open>.data\<close> of the coordinate
  and raises \<^verbatim>\<open>AttributeError\<close>.
\<close>

theorem coordinate_negates_north_and_east:
  "coordinate (Fin 10) (direction_ns ''N'') (Fin 20) (direction_ew ''E'')
     = \<lparr>latitude = Fin (- 10), longitude = Fin (- 20)\<rparr>
   \<and> coordinate lat (direction_ns a) lon (direction_ew b)
     = \<lparr>latitude = float_neg lat, longitude = float_neg lon\<rparr>
   \<and> site_attr (attr_children (PCoordinate
        (coordinate (Fin 10) (direction_ns ''N'') (Fin 20) (direction_ew ''E''))))
     = Inl AttributeError"
  by (simp add: coordinate_def direction_ns_def direction_ew_def site_attr_def attr_children_def)

subsection \<open>Attributes of a block\<close>

text \<open>
  On the tuples of a block, the value of the last tuple of a name is the one every
  block callback stores: in the dictionary of \<^verbatim>\<open>spec_block\<close> and the specs of the
  equipment item, and in each field of the records \<^verbatim>\<open>site_def\<close>, \<^verbatim>\<open>layout_def\<close>,
  \<^verbatim>\<open>simulate_def\<close> and \<^verbatim>\<open>optimize_def\<close> build (the two fields that \<^verbatim>\<open>__post_init__\<close>
  defaults, when the value is not \<^verbatim>\<open>None\<close>). Building the dictionary raises nothing.
\<close>

lemma dict_get_last:
  assumes "k \<notin> fst ` set ys"
  shows "dict_get (dict (xs @ (k, v) # ys)) k = v"
  using dict_last_wins [OF assms, of xs v] by (simp add: dict_get_def)

lemma spec_block_last_wins:
  assumes "k \<notin> fst ` set ys"
  shows "spec_block (xs @ (k, v) # ys) k = Some v
       \<and> specs (fst (equipment_item t nm (Some (spec_block (xs @ (k, v) # ys))) m)) k = Some v"
  using dict_last_wins [OF assms, of xs v]
  by (simp add: spec_block_def equipment_item_def Let_def)

lemma site_def_last_wins:
  assumes "k \<notin> fst ` set ys"
  shows "(k = ''location'' \<longrightarrow> location (fst (site_def nm (xs @ (k, v) # ys) m)) = v)
       \<and> (k = ''area'' \<longrightarrow> area (fst (site_def nm (xs @ (k, v) # ys) m)) = v)
       \<and> (k = ''terrain'' \<longrightarrow> terrain (fst (site_def nm (xs @ (k, v) # ys) m)) = v)
       \<and> (k = ''irradiance'' \<longrightarrow> irradiance (fst (site_def nm (xs @ (k, v) # ys) m)) = v)
       \<and> (k = ''elevation'' \<longrightarrow> elevation (fst (site_def nm (xs @ (k, v) # ys) m)) = v)"
  using dict_get_last [OF assms, of xs v] by (auto simp: site_def_def Let_def)

lemma layout_def_last_wins:
  assumes "k \<notin> fst ` set ys"
  shows "(k = ''panels'' \<longrightarrow> panels (fst (layout_def nm (xs @ (k, v) # ys) m)) = v)
       \<and> (k = ''inverters'' \<longrightarrow> inverters (fst (layout_def nm (xs @ (k, v) # ys) m)) = v)
       \<and> (k = ''orientation'' \<longrightarrow> orientation (fst (layout_def nm (xs @ (k, v) # ys) m)) = v)
       \<and> (k = ''tilt'' \<longrightarrow> tilt (fst (layout_def nm (xs @ (k, v) # ys) m)) = v)
       \<and> (k = ''row_spacing'' \<longrightarrow> row_spacing (fst (layout_def nm (xs @ (k, v) # ys) m)) = v)
       \<and> (k = ''tracking'' \<longrightarrow> tracking (fst (layout_def nm (xs @ (k, v) # ys) m)) = v)"
  using dict_get_last [OF assms, of xs v] by (auto simp: layout_def_def Let_def)

lemma simulate_def_last_wins:
  assumes "k \<notin> fst ` set ys"
  shows "(k = ''weather'' \<longrightarrow> weather (fst (simulate_def (xs @ (k, v) # ys) m)) = v)
       \<and> (k = ''duration'' \<longrightarrow> duration (fst (simulate_def (xs @ (k, v) # ys) m)) = v)
       \<and> (k = ''timestep'' \<longrightarrow> timestep (fst (simulate_def (xs @ (k, v) # ys) m)) = v)
       \<and> (k = ''outputs'' \<and> v \<noteq> PNone \<longrightarrow>
             outputs (fst (simulate_def (xs @ (k, v) # ys) m)) = v)"
  using dict_get_last [OF assms, of xs v]
  by (auto simp: simulate_def_def Simulation_new_def Let_def)

lemma optimize_def_last_wins:
  assumes "k \<notin> fst ` set ys"
  shows "(k = ''objective'' \<longrightarrow> objective (fst (optimize_def (xs @ (k, v) # ys) m)) = v)
       \<and> (k = ''variables'' \<and> v \<noteq> PNone \<longrightarrow>
             variables (fst (optimize_def (xs @ (k, v) # ys) m)) = v)
       \<and> (k = ''algorithm'' \<longrightarrow> algorithm (fst (optimize_def (xs @ (k, v) # ys) m)) = v)"
  using dict_get_last [OF assms, of xs v] dict_last_wins [OF assms, of xs v]
  by (auto simp: optimize_def_def Optimization_new_def dict_get_default_def Let_def)

text \<open>
  C3. The document of Scenario B does not reach these callbacks in a form the grammar
  takes. Its two \<^verbatim>\<open>capacity\<close> lines are a block at depth two, and the preprocessor
  opens that block with two \<^verbatim>\<open><INDENT>\<close> markers, where the grammar's \<^verbatim>\<open>spec_block\<close> takes
  one \<^verbatim>\<open>_INDENT\<close> before its spec lines: after the four lines the stack is [0, 4, 8] and
  the first spec line has become \<^verbatim>\<open><INDENT><INDENT>capacity: 400kW\<close>.
\<close>

theorem scenario_b_spec_block_opens_twice:
  "process_lines
     [''equipment:'', ''    panel \"P1\":'', ''        capacity: 400kW'', ''        capacity: 500kW'']
     (IndentPreprocessor_init
        ''equipment:\<newline>    panel \"P1\":\<newline>        capacity: 400kW\<newline>        capacity: 500kW'')
   = Inr \<lparr>lines = [''equipment:'', ''    panel \"P1\":'', ''        capacity: 400kW'',
                   ''        capacity: 500kW''],
          output' = [''equipment:'', ''<INDENT>panel \"P1\":'', ''<INDENT><INDENT>capacity: 400kW'',
                     ''        capacity: 500kW''],
          indent_stack = [0, 4, 8]\<rparr>"
  by code_simp

text \<open>
  C5. Permuting the attribute tuples of a block, when no attribute name occurs twice,
  leaves the result of the block's callback unchanged: the record built and the model
  written by \<^verbatim>\<open>site_def\<close>, \<^verbatim>\<open>layout_def\<close>, \<^verbatim>\<open>simulate_def\<close> and
  \<^verbatim>\<open>optimize_def\<close>, and the dictionary of \<^verbatim>\<open>spec_block\<close>.
\<close>

theorem attribute_order_independent:
  assumes "mset items' = mset items" and "distinct (map fst items)"
  shows "site_def nm items' m = site_def nm items m
       \<and> layout_def nm items' m = layout_def nm items m
       \<and> simulate_def items' m = simulate_def items m
       \<and> optimize_def items' m = optimize_def items m
       \<and> spec_block items' = spec_block items"
  using dict_perm [OF assms]
  by (simp add: site_def_def layout_def_def simulate_def_def optimize_def_def spec_block_def)

theorem attribute_order_independent_witness:
  "mset [(''area'', PQuantity \<lparr>Quantity.value' = Fin 50, unit = ''hectares''\<rparr>), (''terrain'', PStr ''flat'')]
     = mset [(''terrain'', PStr ''flat''), (''area'', PQuantity \<lparr>Quantity.value' = Fin 50, unit = ''hectares''\<rparr>)]
   \<and> distinct (map fst [(''terrain'', PStr ''flat''), (''area'', PQuantity \<lparr>Quantity.value' = Fin 50, unit = ''hectares''\<rparr>)])
   \<and> site_def (PStr ''S'') [(''area'', PQuantity \<lparr>Quantity.value' = Fin 50, unit = ''hectares''\<rparr>), (''terrain'', PStr ''flat'')] Model_new
     = site_def (PStr ''S'') [(''terrain'', PStr ''flat''), (''area'', PQuantity \<lparr>Quantity.value' = Fin 50, unit = ''hectares''\<rparr>)] Model_new"
  using attribute_order_independent
    [of "[(''area'', PQuantity \<lparr>Quantity.value' = Fin 50, unit = ''hectares''\<rparr>), (''terrain'', PStr ''flat'')]"
        "[(''terrain'', PStr ''flat''), (''area'', PQuantity \<lparr>Quantity.value' = Fin 50, unit = ''hectares''\<rparr>)]"
        "PStr ''S''" Model_new]
  by simp

subsection \<open>Defaults\<close>



text \<open>
  C9. Whenever the model returned by the transformer has an optimization, its
  constraints are the empty list; and a run that contains a call of \<^verbatim>\<open>optimize_def\<close>
  returns a model that has an optimization. No callback builds a \<^verbatim>\<open>Constraint\<close>.
\<close>

theorem optimization_constraints_empty:
  "(\<forall>opt. optimization (run_calls cs) = Some opt \<longrightarrow> constraints opt = Some [])
   \<and> (OptimizeDef items \<in> set cs \<longrightarrow>
        (\<exists>opt. optimization (run_calls cs) = Some opt \<and> constraints opt = Some []))"
  using run_calls_constraints [of cs] run_calls_has_optimization [of items cs]
  by auto

theorem optimization_constraints_empty_witness:
  "OptimizeDef [(''algorithm'', PStr ''genetic'')]
     \<in> set [SiteDef (PStr ''Farm'') [], OptimizeDef [(''algorithm'', PStr ''genetic'')]]
   \<and> (\<exists>opt. optimization (run_calls [SiteDef (PStr ''Farm'') [],
                 OptimizeDef [(''algorithm'', PStr ''genetic'')]]) = Some opt
          \<and> constraints opt = Some [] \<and> algorithm opt = PStr ''genetic'')"
proof -
  have "algorithm (the (optimization (run_calls [SiteDef (PStr ''Farm'') [],
          OptimizeDef [(''algorithm'', PStr ''genetic'')]]))) = PStr ''genetic''"
    by (simp add: run_calls_def Model_new_def site_def_def optimize_def_def Optimization_new_def
        dict_def dict_get_def dict_get_default_def Let_def)
  then show ?thesis
    using optimization_constraints_empty
      [of "[SiteDef (PStr ''Farm'') [], OptimizeDef [(''algorithm'', PStr ''genetic'')]]"
          "[(''algorithm'', PStr ''genetic'')]"]
    by auto
qed

subsection \<open>Equipment references\<close>

text \<open>
  C7. The equipment reference of \<^verbatim>\<open>P1 * 200\<close> has name \<^verbatim>\<open>P1\<close> and the integer
  count 200, the count being \<^verbatim>\<open>int\<close> of the float 200.0. It does not reach a layout:
  the attribute callback of the line \<^verbatim>\<open>panels: P1 * 200\<close> is left this reference as
  its only child, reads \<^verbatim>\<open>.data\<close> of it and raises \<^verbatim>\<open>AttributeError\<close>.
\<close>

theorem panels_line_raises:
  "equipment_ref ''P1'' (Some (Fin 200)) = Inr \<lparr>EquipmentRef.name = ''P1'', count = Some 200\<rparr>
   \<and> py_int (Fin 200) = Inr 200
   \<and> layout_attr (attr_children (PEquipmentRef \<lparr>EquipmentRef.name = ''P1'', count = Some 200\<rparr>))
     = Inl AttributeError"
  by (simp add: equipment_ref_def py_trunc_def layout_attr_def attr_children_def)

text \<open>
  C10. A multiplier of zero gives the same equipment reference as no multiplier: the
  count is \<^verbatim>\<open>None\<close>, not 0. For every other multiplier the count is \<^verbatim>\<open>int\<close> of
  the multiplier (truncation towards zero for a finite one; the error of \<^verbatim>\<open>int\<close>
  for an infinite one).
\<close>

theorem zero_multiplier_is_absent:
  "equipment_ref n (Some (Fin 0)) = Inr \<lparr>EquipmentRef.name = n, count = None\<rparr>
   \<and> equipment_ref n (Some (Fin 0)) = equipment_ref n None
   \<and> (r \<noteq> 0 \<longrightarrow>
        equipment_ref n (Some (Fin r)) = Inr \<lparr>EquipmentRef.name = n, count = Some (py_trunc r)\<rparr>)
   \<and> (m \<noteq> Fin 0 \<longrightarrow>
        equipment_ref n (Some m)
          = (case py_int m of Inl e \<Rightarrow> Inl e
             | Inr k \<Rightarrow> Inr \<lparr>EquipmentRef.name = n, count = Some k\<rparr>))"
  by (cases m) (simp_all add: equipment_ref_def)

theorem zero_multiplier_is_absent_witness:
  "(3.7::real) \<noteq> 0 \<and> Fin 3.7 \<noteq> Fin 0
   \<and> equipment_ref ''P1'' (Some (Fin 3.7)) = Inr \<lparr>EquipmentRef.name = ''P1'', count = Some 3\<rparr>
   \<and> equipment_ref ''P1'' (Some (Fin 0)) = Inr \<lparr>EquipmentRef.name = ''P1'', count = None\<rparr>"
proof -
  have "py_trunc 3.7 = 3"
    by (simp add: py_trunc_def floor_eq_iff)
  then show ?thesis
    using zero_multiplier_is_absent [of "''P1''" "3.7" "Fin 3.7"] by simp
qed

subsection \<open>Splitting into lines\<close>

text \<open>
  \<^verbatim>\<open>split\<close> keeps empty fields: the empty text is one empty line, and a text that ends
  in a newline has an empty last line. Joining the lines with newlines gives the text
  back.
\<close>

lemma split_str_fields:
  "split_str newline '''' = ['''']
   \<and> split_str newline ''a\<newline>'' = [''a'', '''']
   \<and> split_str newline ''\<newline>'' = ['''', '''']
   \<and> split_str newline ''a\<newline>\<newline>b'' = [''a'', '''', ''b'']"
  by (simp add: newline_def)

lemma split_str_not_empty: "split_str sep s \<noteq> []"
  by (induction s) (simp_all split: list.splits)

lemma join_split_str: "join_str [sep] (split_str sep s) = s"
proof (induction s)
  case Nil
  show ?case by simp
next
  case (Cons c s)
  obtain w ws where ws: "split_str sep s = w # ws"
    using split_str_not_empty [of sep s] by (cases "split_str sep s") simp_all
  show ?case
  proof (cases "c = sep")
    case True
    then show ?thesis using Cons ws by simp
  next
    case False
    then show ?thesis using Cons ws by (cases ws) simp_all
  qed
qed

subsection \<open>The indentation preprocessor\<close>

text \<open>
  The two loops in closed form. The dedent loop pops the levels above the line's width
  from the top of the stack and appends one \<^verbatim>\<open><DEDENT>\<close> line for each; the closing
  loop pops every level above the base and appends one \<^verbatim>\<open><DEDENT>\<close> line for each.
\<close>

lemma dedent_while_lines: "lines (dedent_while indent s) = lines s"
  by (induction indent s rule: dedent_while.induct) (subst dedent_while.simps, simp)

lemma dedent_while_stack:
  "indent_stack (dedent_while indent s)
     = rev (dropWhile (\<lambda>w. indent < w) (rev (indent_stack s)))"
proof (induction indent s rule: dedent_while.induct)
  case (1 indent s)
  show ?case
  proof (cases "indent_stack s \<noteq> [] \<and> indent < last (indent_stack s)")
    case True
    then obtain ws w where st: "indent_stack s = ws @ [w]" and w: "indent < w"
      by (metis append_butlast_last_id)
    show ?thesis
      using 1 True by (subst dedent_while.simps) (simp add: st w)
  next
    case False
    then have "dropWhile (\<lambda>w. indent < w) (rev (indent_stack s)) = rev (indent_stack s)"
      by (cases "indent_stack s" rule: rev_cases) simp_all
    then show ?thesis
      using False by (subst dedent_while.simps) auto
  qed
qed

lemma dedent_while_output:
  "output' (dedent_while indent s)
     = output' s @ replicate (length (takeWhile (\<lambda>w. indent < w) (rev (indent_stack s)))) ''<DEDENT>''"
proof (induction indent s rule: dedent_while.induct)
  case (1 indent s)
  show ?case
  proof (cases "indent_stack s \<noteq> [] \<and> indent < last (indent_stack s)")
    case True
    then obtain ws w where st: "indent_stack s = ws @ [w]" and w: "indent < w"
      by (metis append_butlast_last_id)
    show ?thesis
      using 1 True by (subst dedent_while.simps) (simp add: st w replicate_app_Cons_same)
  next
    case False
    then have "takeWhile (\<lambda>w. indent < w) (rev (indent_stack s)) = []"
      by (cases "indent_stack s" rule: rev_cases) simp_all
    then show ?thesis
      using False by (subst dedent_while.simps) auto
  qed
qed

lemma close_while_stack: "indent_stack (close_while s) = take 1 (indent_stack s)"
proof (induction s rule: close_while.induct)
  case (1 s)
  show ?case
  proof (cases "length (indent_stack s) > 1")
    case True
    then have "take 1 (butlast (indent_stack s)) = take 1 (indent_stack s)"
      by (simp add: take_butlast)
    then show ?thesis
      using 1 True by (subst close_while.simps) simp
  next
    case False
    then show ?thesis
      by (subst close_while.simps) simp
  qed
qed

lemma close_while_output:
  "output' (close_while s) = output' s @ replicate (length (indent_stack s) - 1) ''<DEDENT>''"
proof (induction s rule: close_while.induct)
  case (1 s)
  show ?case
  proof (cases "length (indent_stack s) > 1")
    case True
    then have "replicate (length (indent_stack s) - 1) ''<DEDENT>''
                 = ''<DEDENT>'' # replicate (length (indent_stack s) - 1 - 1) ''<DEDENT>''"
      by (cases "length (indent_stack s) - 1") simp_all
    then show ?thesis
      using 1 True by (subst close_while.simps) simp
  next
    case False
    then show ?thesis
      by (subst close_while.simps) simp
  qed
qed

text \<open>
  The two branches that change the stack. A line wider than the top pushes its width
  and has its first run of that many spaces replaced by as many \<^verbatim>\<open><INDENT>\<close> markers
  as the stack held levels before the push (base included), that is, by its nesting
  depth; a narrower line runs the dedent loop and is appended unchanged.
\<close>

lemma indent_line_markers:
  assumes "strip line \<noteq> []" and "indent_stack s \<noteq> []"
    and "length line - length (lstrip line) > last (indent_stack s)"
  shows "process_line line s =
           Inr (s\<lparr>indent_stack := indent_stack s @ [length line - length (lstrip line)],
                  output' := output' s @
                    [replace_first (str_times '' '' (length line - length (lstrip line)))
                       (str_times ''<INDENT>'' (length (indent_stack s))) line]\<rparr>)"
  using assms by (simp add: process_line_def Let_def)

lemma dedent_line:
  assumes "strip line \<noteq> []" and "indent_stack s \<noteq> []"
    and "length line - length (lstrip line) < last (indent_stack s)"
  shows "process_line line s =
           Inr ((dedent_while (length line - length (lstrip line)) s)
                  \<lparr>output' := output' (dedent_while (length line - length (lstrip line)) s) @ [line]\<rparr>)"
  using assms by (simp add: process_line_def Let_def)

text \<open>
  On the object \<^verbatim>\<open>__init__\<close> builds, \<^verbatim>\<open>process\<close> raises nothing and returns a text.
\<close>

lemma dedent_while_stack_ok:
  assumes "stack_ok s"
  shows "stack_ok (dedent_while indent s)"
proof -
  obtain ws where st: "indent_stack s = 0 # ws"
    using assms by (cases "indent_stack s") (simp_all add: stack_ok_def)
  have "dropWhile (\<lambda>w. indent < w) (rev ws @ [0]) = dropWhile (\<lambda>w. indent < w) (rev ws) @ [0]"
    by (induction "rev ws" arbitrary: ws) (simp_all add: dropWhile_append)
  then show ?thesis
    by (simp add: stack_ok_def dedent_while_stack st)
qed

lemma process_line_ok:
  assumes "stack_ok s"
  shows "\<exists>s'. process_line line s = Inr s' \<and> stack_ok s'"
  using assms dedent_while_stack_ok [OF assms]
  by (auto simp: process_line_def Let_def stack_ok_def)

lemma process_lines_ok:
  assumes "stack_ok s"
  shows "\<exists>s'. process_lines ls s = Inr s' \<and> stack_ok s'"
  using assms
proof (induction ls arbitrary: s)
  case Nil
  then show ?case by simp
next
  case (Cons l ls)
  obtain s1 where "process_line l s = Inr s1" "stack_ok s1"
    using process_line_ok [OF Cons.prems] by blast
  then show ?case using Cons.IH [of s1] by simp
qed

lemma process_total: "\<exists>out. process (IndentPreprocessor_init text) = Inr out"
proof -
  have "stack_ok (IndentPreprocessor_init text)"
    by (simp add: stack_ok_def IndentPreprocessor_init_def)
  then obtain s' where "process_lines (lines (IndentPreprocessor_init text)) (IndentPreprocessor_init text) = Inr s'"
    using process_lines_ok by blast
  then show ?thesis by (simp add: process_def)
qed

text \<open>A line is blank for \<^verbatim>\<open>not line.strip()\<close> exactly when all its characters are whitespace.\<close>

lemma strip_blank:
  assumes "\<forall>c \<in> set line. isspace c"
  shows "strip line = []"
proof -
  have "dropWhile isspace line = []"
    using assms by (induction line) simp_all
  then have "strip line = rev (dropWhile isspace (rev []))"
    by (simp only: strip_def)
  then show ?thesis by simp
qed

lemma strip_blank_iff: "strip line = [] \<longleftrightarrow> (\<forall>c \<in> set line. isspace c)"
proof
  assume "strip line = []"
  then have "dropWhile isspace (rev (dropWhile isspace line)) = []"
    by (simp add: strip_def)
  then have a: "\<forall>c \<in> set (dropWhile isspace line). isspace c"
    by (metis dropWhile_eq_Nil_conv set_rev)
  have "dropWhile isspace line = []"
  proof (cases "dropWhile isspace line")
    case Nil
    then show ?thesis .
  next
    case (Cons c cs)
    then have "\<not> isspace c"
      by (metis hd_dropWhile list.sel(1) list.distinct(1))
    moreover have "isspace c" using a Cons by simp
    ultimately show ?thesis by simp
  qed
  then show "\<forall>c \<in> set line. isspace c"
    by (metis dropWhile_eq_Nil_conv)
next
  assume "\<forall>c \<in> set line. isspace c"
  then show "strip line = []" by (rule strip_blank)
qed

text \<open>
  C2. At the document of Scenario B the preprocessor prefixes the first line of the
  nested spec block, at depth two, with two \<^verbatim>\<open><INDENT>\<close> markers, not with one: three
  markers open two levels, and two \<^verbatim>\<open><DEDENT>\<close> lines close them.
\<close>

theorem process_nested_block_markers:
  "process (IndentPreprocessor_init
      ''equipment:\<newline>    panel \"P1\":\<newline>        capacity: 400kW\<newline>        capacity: 500kW'')
   = Inr ''equipment:\<newline><INDENT>panel \"P1\":\<newline><INDENT><INDENT>capacity: 400kW\<newline>        capacity: 500kW\<newline><DEDENT>\<newline><DEDENT>''"
  by code_simp

text \<open>
  C8, as amended. For a line that is empty or holds only whitespace, the preprocessor
  appends exactly one empty line to its output and leaves the indentation stack (and the
  rest of its state) as it was: an empty line comes out unchanged, a line of whitespace
  comes out as the empty line.
\<close>

theorem blank_line_emits_empty_line:
  assumes "\<forall>c \<in> set line. isspace c"
  shows "process_line line s = Inr (s\<lparr>output' := output' s @ ['''']\<rparr>)
       \<and> (\<forall>s'. process_line line s = Inr s' \<longrightarrow>
             indent_stack s' = indent_stack s \<and> length (output' s') = Suc (length (output' s)))"
  using strip_blank [OF assms] by (simp add: process_line_def)

theorem blank_line_emits_empty_line_witness:
  "process_line ''   '' (IndentPreprocessor_init ''site:'')
     = Inr \<lparr>lines = [''site:''], output' = [''''], indent_stack = [0]\<rparr>"
proof -
  have "\<forall>c \<in> set ''   ''. isspace c"
    by (simp add: isspace_def)
  from blank_line_emits_empty_line [OF this, of "IndentPreprocessor_init ''site:''"]
  show ?thesis
    by (simp add: IndentPreprocessor_init_def newline_def)
qed

text \<open>
  C8, as stated, fails: the line of three spaces is not passed through unchanged.
\<close>

theorem whitespace_line_not_unchanged:
  "process_line ''   '' \<lparr>lines = [''   ''], output' = [], indent_stack = [0]\<rparr>
     \<noteq> Inr \<lparr>lines = [''   ''], output' = [''   ''], indent_stack = [0]\<rparr>"
  by (simp add: process_line_def strip_def isspace_def)

subsection \<open>The entry point\<close>

text \<open>
  A failure of Lark's parser or of a callback is the result of \<^verbatim>\<open>parse\<close>: no model
  is returned with it. The transformer itself does not reject an attribute name it does
  not know: \<^verbatim>\<open>layout_def\<close> reads six names from the dictionary and ignores any other.
\<close>

lemma parse_aborts_on_parser_error:
  assumes "process (IndentPreprocessor_init dsl_text) = Inr processed_text"
    and "lark_parse processed_text = Inl e"
  shows "parse lark_parse transform dsl_text = Inl e"
  using assms by (simp add: parse_def)

lemma parse_aborts_on_callback_error:
  assumes "process (IndentPreprocessor_init dsl_text) = Inr processed_text"
    and "lark_parse processed_text = Inr tree" and "transform tree = Inl e"
  shows "parse lark_parse transform dsl_text = Inl e"
  using assms by (simp add: parse_def)

lemma dict_snoc: "dict (items @ [(k, v)]) = (dict items)(k \<mapsto> v)"
  by (simp add: dict_def)

lemma layout_def_ignores_unknown_attribute:
  assumes "k \<notin> {''panels'', ''inverters'', ''orientation'', ''tilt'', ''row_spacing'', ''tracking''}"
  shows "layout_def nm (items @ [(k, v)]) m = layout_def nm items m"
proof -
  have "dict_get (dict (items @ [(k, v)])) k' = dict_get (dict items) k'"
    if "k' \<in> {''panels'', ''inverters'', ''orientation'', ''tilt'', ''row_spacing'', ''tracking''}"
    for k'
    using that assms by (auto simp: dict_snoc dict_get_def)
  then show ?thesis
    by (simp add: layout_def_def Let_def)
qed

end
